theory Spec2Isabelle
  imports Main "HOL-Library.AList" "HOL-Library.Sublist" "HOL-Library.List_Lexorder"
    "HOL-Library.Char_ord"
begin

section \<open>Strings as the service builds them\<close>

text \<open>
  File names, cache keys and prefixes are JavaScript template strings. A number
  interpolated into a template is printed in decimal without leading zeros.
\<close>

definition digit :: "nat \<Rightarrow> char" where
  "digit d = ''0123456789'' ! d"

fun show_nat :: "nat \<Rightarrow> string" where
  "show_nat n = (if n < 10 then [digit n] else show_nat (n div 10) @ [digit (n mod 10)])"

declare show_nat.simps [simp del]

text \<open>
  \<open>path.extname\<close> of Node.js (POSIX flavour) is library code that the routes call on
  the client-supplied file name. It looks at the last path component: the extension
  runs from its last dot to its end, and is empty when there is no dot, when the only
  dot is the first character, or when the component is \<open>..\<close>.
\<close>

definition basename_part :: "string \<Rightarrow> string" where
  "basename_part p =
     (let q = dropWhile (\<lambda>c. c = CHR ''/'') (rev p)
      in rev (takeWhile (\<lambda>c. c \<noteq> CHR ''/'') q))"

definition extname :: "string \<Rightarrow> string" where
  "extname p =
     (let b = basename_part p;
          e = rev (takeWhile (\<lambda>c. c \<noteq> CHR ''.'') (rev b))
      in if CHR ''.'' \<notin> set b then ''''
         else if Suc (length e) = length b then ''''
         else if b = ''..'' then ''''
         else CHR ''.'' # e)"

section \<open>Data model\<close>

text \<open>
  The logo route builds an object with every field of \<open>MediaFile\<close> except
  \<open>position\<close>; the interface \<open>MediaFile\<close> adds the position. Timestamps are
  milliseconds. The fields \<open>id\<close> and \<open>size\<close> of the source carry a prime here.
\<close>

record LogoFile =
  id' :: string
  entityId :: string
  entityType :: string
  companyId :: string
  filename :: string
  originalName :: string
  mimeType :: string
  size' :: nat
  createdAt :: nat
  path :: string

record MediaFile = LogoFile +
  position :: int

section \<open>Merging new descriptors into the aggregate (POST /upload)\<close>

text \<open>\<open>Array.prototype.findIndex\<close>: the first index whose element satisfies the
  predicate; JavaScript's \<open>-1\<close> is \<open>None\<close>.\<close>

fun findIndex :: "('a \<Rightarrow> bool) \<Rightarrow> 'a list \<Rightarrow> nat option" where
  "findIndex P [] = None"
| "findIndex P (x # xs) = (if P x then Some 0 else map_option Suc (findIndex P xs))"

text \<open>The callback given to \<open>reduce\<close>: replace the element of the accumulator that
  has the position of the current element \<open>cur\<close>, or push \<open>cur\<close>.\<close>

definition merge_step :: "MediaFile list \<Rightarrow> MediaFile \<Rightarrow> MediaFile list" where
  "merge_step acc cur =
     (case findIndex (\<lambda>item. position item = position cur) acc of
        Some index \<Rightarrow> acc[index := cur]
      | None \<Rightarrow> acc @ [cur])"

text \<open>\<open>[...existingMetadata, ...mediaFiles].reduce(..., []).sort((a, b) => a.position - b.position)\<close>.
  The sort of the runtime is stable, as \<open>sort_key\<close> is.\<close>

definition combinedMetadata :: "MediaFile list \<Rightarrow> MediaFile list \<Rightarrow> MediaFile list" where
  "combinedMetadata existingMetadata mediaFiles =
     sort_key position (foldl merge_step [] (existingMetadata @ mediaFiles))"

section \<open>The file store and the cache\<close>

text \<open>
  A stored file is classified by what \<open>JSON.parse\<close> makes of its text: \<open>Blob\<close> is
  text that does not parse, \<open>MediaDoc\<close> an array of descriptors (what the upload route
  writes to \<open><entityId>.json\<close>), \<open>LogoDoc\<close> one logo descriptor (what the logo route
  writes to \<open>logo-<companyId>.json\<close>) and \<open>OtherJson\<close> any other value that is
  not iterable. A client may upload text of any of these kinds.
\<close>

datatype content = Blob string | MediaDoc "MediaFile list" | LogoDoc LogoFile | OtherJson

text \<open>
  A directory is a list of named entries, and \<open>None\<close> while it has not been created.
  \<open>fs.readdirSync\<close> reports the names in byte order (libuv sorts what \<open>scandir\<close>
  returns). The upload directory holds the uploaded files and the aggregates; the
  logo directory sits in it under the name \<open>logos\<close> and holds the logos with their
  modification times. The service creates no other directory.
\<close>

type_synonym 'a dir = "(string \<times> 'a) list"

definition readdirSync :: "'a dir \<Rightarrow> string list" where
  "readdirSync d = sort (map fst d)"

definition existsSync :: "'a dir \<Rightarrow> string \<Rightarrow> bool" where
  "existsSync d name = (map_of d name \<noteq> None)"

definition writeFile :: "'a dir \<Rightarrow> string \<Rightarrow> 'a \<Rightarrow> 'a dir" where
  "writeFile d name c = AList.update name c d"

definition unlinkSync :: "'a dir \<Rightarrow> string \<Rightarrow> 'a dir" where
  "unlinkSync d name = AList.delete name d"

text \<open>Looking a file up (\<open>fs.existsSync\<close> and the read that follows it) in a directory
  that may be missing, and the \<open>destination\<close> callbacks of multer, which create the
  directory when it is missing (\<open>fs.mkdirSync\<close> with \<open>recursive: true\<close>).\<close>

definition readFile :: "'a dir option \<Rightarrow> string \<Rightarrow> 'a option" where
  "readFile d name = (case d of None \<Rightarrow> None | Some es \<Rightarrow> map_of es name)"

definition destination :: "'a dir option \<Rightarrow> 'a dir" where
  "destination d = (case d of None \<Rightarrow> [] | Some es \<Rightarrow> es)"

text \<open>The loop \<open>if (fs.existsSync(filePath)) fs.unlinkSync(filePath)\<close> over a list of names.\<close>

definition unlink_each :: "'a dir \<Rightarrow> string list \<Rightarrow> 'a dir" where
  "unlink_each d names =
     foldl (\<lambda>d' file. if existsSync d' file then unlinkSync d' file else d') d names"

text \<open>
  The cache is a \<open>NodeCache\<close> with \<open>stdTTL: 7200\<close> seconds and \<open>useClones: false\<close>: an
  entry carries the time at which it expires, and \<open>get\<close> reports an expired entry as
  absent. The upload route stores a \<open>MediaFile\<close>, the logo route a descriptor without
  position, both in the one cache.
\<close>

datatype cached = CachedMedia MediaFile | CachedLogo LogoFile

fun cached_companyId :: "cached \<Rightarrow> string" where
  "cached_companyId (CachedMedia m) = companyId m"
| "cached_companyId (CachedLogo l) = companyId l"

type_synonym cache = "string \<rightharpoonup> cached \<times> nat"

definition stdTTL :: nat where
  "stdTTL = 7200"

definition cache_set :: "nat \<Rightarrow> string \<Rightarrow> cached \<Rightarrow> cache \<Rightarrow> cache" where
  "cache_set t key v c = c(key \<mapsto> (v, t + stdTTL * 1000))"

definition cache_get :: "nat \<Rightarrow> string \<Rightarrow> cache \<Rightarrow> cached option" where
  "cache_get t key c =
     (case c key of
        None \<Rightarrow> None
      | Some (v, expires) \<Rightarrow> if expires < t then None else Some v)"

definition cache_del :: "string \<Rightarrow> cache \<Rightarrow> cache" where
  "cache_del key c = c(key := None)"

record state =
  uploads :: "content dir option"
  logos :: "(content \<times> nat) dir option"
  mediaCache :: cache

section \<open>Paths\<close>

text \<open>
  The routes build a path with \<open>path.join\<close> from a directory and a name taken from the
  request, and \<open>path.join\<close> normalises what it builds: it drops empty segments and
  \<open>.\<close>, and \<open>..\<close> takes the segment before it away. So a name with a separator
  in it need not name an entry of the directory it was joined to.

  \<open>walk\<close> follows the segments of a name from a directory, given as the segments that
  lead to it from the directory that holds \<open>uploads\<close>, innermost first; it is \<open>None\<close>
  when the path climbs above that directory.
\<close>

fun split_on :: "char \<Rightarrow> string \<Rightarrow> string list" where
  "split_on c [] = [[]]"
| "split_on c (x # xs) =
     (if x = c then [] # split_on c xs
      else case split_on c xs of s # ss \<Rightarrow> (x # s) # ss | [] \<Rightarrow> [[x]])"

fun walk :: "string list \<Rightarrow> string list \<Rightarrow> string list option" where
  "walk here [] = Some here"
| "walk here (s # ss) =
     (if s = [] \<or> s = ''.'' then walk here ss
      else if s = ''..'' then (case here of [] \<Rightarrow> None | seg # up \<Rightarrow> walk up ss)
      else walk (s # here) ss)"

text \<open>
  Where a normalised path leads: to one of the two directories, to an entry of one of
  them, to nothing (\<open>Nowhere\<close>: a path through a directory that does not exist or
  through a file, which every file operation refuses), or out of the upload directory
  (\<open>Elsewhere\<close>), to files that are not part of the state. A path that ends in a
  separator names a directory, never a file.
\<close>

datatype location = UploadsDir | LogosDir | UploadsFile string | LogosFile string
  | Nowhere | Elsewhere

definition locate :: "string list \<Rightarrow> bool \<Rightarrow> location" where
  "locate p slash =
     (if p = [''uploads''] then UploadsDir
      else if p = [''uploads'', ''logos''] then LogosDir
      else if take 1 p \<noteq> [''uploads''] then Elsewhere
      else if length p = 2 \<and> \<not> slash then UploadsFile (p ! 1)
      else if length p = 3 \<and> p ! 1 = ''logos'' \<and> \<not> slash then LogosFile (p ! 2)
      else Nowhere)"

definition path_join :: "string list \<Rightarrow> string \<Rightarrow> location" where
  "path_join dir name =
     (case walk (rev dir) (split_on CHR ''/'' name) of
        None \<Rightarrow> Elsewhere
      | Some here \<Rightarrow> locate (rev here) (name \<noteq> [] \<and> last name = CHR ''/''))"

definition uploadDir :: "string list" where
  "uploadDir = [''uploads'']"


text \<open>The path of a stored file as the descriptors show it, from the directory that
  holds \<open>uploads\<close>.\<close>

fun path_string :: "location \<Rightarrow> string" where
  "path_string (UploadsFile n) = ''uploads/'' @ n"
| "path_string (LogosFile n) = ''uploads/logos/'' @ n"
| "path_string UploadsDir = ''uploads''"
| "path_string LogosDir = ''uploads/logos''"
| "path_string other = []"

text \<open>The file operations on a location. Reading finds the text of a file or nothing;
  writing and unlinking fail (\<open>None\<close>, an exception of \<open>fs\<close>) where no file can be.
  A file written into the logo directory gets the time of the write.\<close>

fun lookup :: "state \<Rightarrow> location \<Rightarrow> content option" where
  "lookup st (UploadsFile n) = readFile (uploads st) n"
| "lookup st (LogosFile n) = map_option fst (readFile (logos st) n)"
| "lookup st other = None"

fun write_at :: "nat \<Rightarrow> location \<Rightarrow> content \<Rightarrow> state \<Rightarrow> state option" where
  "write_at t (UploadsFile n) c st =
     (case uploads st of
        None \<Rightarrow> None
      | Some d \<Rightarrow> Some (st\<lparr>uploads := Some (writeFile d n c)\<rparr>))"
| "write_at t (LogosFile n) c st =
     (case logos st of
        None \<Rightarrow> None
      | Some d \<Rightarrow> Some (st\<lparr>logos := Some (writeFile d n (c, t))\<rparr>))"
| "write_at t other c st = None"

fun unlink_at :: "location \<Rightarrow> state \<Rightarrow> state" where
  "unlink_at (UploadsFile n) st = st\<lparr>uploads := map_option (\<lambda>d. unlinkSync d n) (uploads st)\<rparr>"
| "unlink_at (LogosFile n) st = st\<lparr>logos := map_option (\<lambda>d. unlinkSync d n) (logos st)\<rparr>"
| "unlink_at other st = st"

section \<open>Requests and responses\<close>

text \<open>
  What a request cannot decide itself is part of it: whether \<open>serviceAuth\<close> accepts
  its headers, the clock (\<open>Date.now()\<close>, in milliseconds) and the values that
  \<open>uuidv4()\<close> returns while it is served.
\<close>

record request =
  authenticated :: bool
  now :: nat

record file_part =
  originalname :: string
  mimetype :: string
  part_size :: nat
  data :: content

text \<open>The file object of multer after storage: \<open>file.filename\<close>, and where
  \<open>file.path\<close> leads.\<close>

record multer_file = file_part +
  stored_filename :: string
  stored_at :: location

text \<open>
  A multipart body is a sequence of text fields and of files of the field \<open>files\<close>,
  in the order the client sent them. A field name sent twice is outside the model.
  Two files of one request that are given the same path are written by two streams
  that run side by side; \<open>race\<close> is what the file holds when both have finished, given
  what the earlier and the later stream wrote.
\<close>

datatype part = Field string string | FilePart file_part

record upload_request = request +
  parts :: "part list"
  uuids :: "nat \<Rightarrow> string"
  race :: "content \<Rightarrow> content \<Rightarrow> content"

record entity_request = request +
  p_entityId :: string

record delete_request = entity_request +
  p_position :: string
  q_companyId :: "string option"

record logo_upload_request = request +
  logo_part :: "file_part option"
  b_companyId :: "string option"
  fresh_id :: string

record logo_request = request +
  p_companyId :: string
  q_metadata :: "string option"

record file_detail =
  d_id :: string
  d_filename :: string
  d_originalName :: string
  d_mimeType :: string
  url :: string
  d_position :: int

text \<open>
  The answers of the routes. \<open>Outside\<close> stands for a request that reached for a path
  out of the upload directory: what it finds or writes there is not part of the
  state, and the model does not say how it is answered.
\<close>

datatype response =
    Error nat string
  | Uploaded "MediaFile list"
  | Listing "file_detail list"
  | SendFile string
  | Message string
  | LogoUploaded LogoFile
  | LogoMetadata "content option" string
  | Outside

text \<open>JavaScript truthiness of a form field or query parameter: present and not empty.\<close>

definition truthy :: "string option \<Rightarrow> bool" where
  "truthy v = (v \<noteq> None \<and> v \<noteq> Some '''')"

definition ALLOWED_MIME_TYPES :: "string list" where
  "ALLOWED_MIME_TYPES =
     [''image/jpeg'', ''image/png'', ''image/gif'', ''image/webp'', ''video/mp4'',
      ''video/quicktime'', ''video/x-msvideo'', ''video/x-ms-wmv'', ''video/webm'']"

definition fileFilter :: "file_part \<Rightarrow> bool" where
  "fileFilter f = (mimetype f \<in> set ALLOWED_MIME_TYPES)"

section \<open>POST /upload\<close>

text \<open>
  \<open>storage.filename\<close>: the name under which multer stores a file, computed from the
  fields of the body received before the file. \<open>uuid\<close> is what \<open>uuidv4()\<close> returns
  if it is called.
\<close>

definition storage_filename :: "(string \<rightharpoonup> string) \<Rightarrow> string \<Rightarrow> file_part \<Rightarrow> string" where
  "storage_filename body uuid f =
     (let entityId = (if truthy (body ''entityId'') then the (body ''entityId'') else uuid);
          position = (if truthy (body ''position'') then the (body ''position'') else ''0'');
          ext = extname (originalname f)
      in entityId @ ''-'' @ position @ ext)"

text \<open>
  \<open>upload.array('files')\<close> with disk storage walks through the parts: a field goes to
  \<open>req.body\<close>; a file part without a file name is skipped; any other file passes
  \<open>fileFilter\<close>, then \<open>storage.destination\<close> creates the upload directory if it is
  missing, the file is named and written to the path joined from the directory and
  the name. When \<open>fileFilter\<close> refuses a file or the write fails, multer removes the
  files this request has stored and passes the error on (\<open>Aborted\<close>, with the state
  as it is left). The size limit of multer is not modelled: file parts are within it.
\<close>

record multer_state =
  body :: "string \<rightharpoonup> string"
  files :: "multer_file list"
  store :: state
  used :: nat

datatype multer_outcome = Parsed multer_state | Aborted state | Escaped state

definition remove_uploaded :: "multer_file list \<Rightarrow> state \<Rightarrow> state" where
  "remove_uploaded fs st = foldl (\<lambda>s f. unlink_at (stored_at f) s) st fs"

fun multer_array ::
  "(nat \<Rightarrow> string) \<Rightarrow> (content \<Rightarrow> content \<Rightarrow> content) \<Rightarrow> nat \<Rightarrow> part list \<Rightarrow> multer_state
     \<Rightarrow> multer_outcome" where
  "multer_array uu mix t [] s = Parsed s"
| "multer_array uu mix t (Field k v # ps) s =
     multer_array uu mix t ps (s\<lparr>body := (body s)(k \<mapsto> v)\<rparr>)"
| "multer_array uu mix t (FilePart f # ps) s =
     (if originalname f = [] then multer_array uu mix t ps s
      else if \<not> fileFilter f then Aborted (remove_uploaded (files s) (store s))
      else
        let st1 = (store s)\<lparr>uploads := Some (destination (uploads (store s)))\<rparr>;
            name = storage_filename (body s) (uu (used s)) f;
            loc = path_join uploadDir name;
            written = (case lookup st1 loc of
                         None \<Rightarrow> data f
                       | Some earlier \<Rightarrow>
                           if loc \<in> set (map stored_at (files s)) then mix earlier (data f)
                           else data f);
            stored = \<lparr>originalname = originalname f, mimetype = mimetype f,
                      part_size = part_size f, data = data f,
                      stored_filename = name, stored_at = loc\<rparr>
        in if loc = Elsewhere then Escaped st1
           else case write_at t loc written st1 of
                  None \<Rightarrow> Aborted (remove_uploaded (files s) st1)
                | Some st2 \<Rightarrow>
                    multer_array uu mix t ps
                      (s\<lparr>files := files s @ [stored], store := st2,
                         used := (if truthy (body s ''entityId'') then used s else Suc (used s))\<rparr>))"

text \<open>The descriptor the handler builds for the file at \<open>index\<close>.\<close>

definition mediaFile_of ::
  "string \<Rightarrow> string \<Rightarrow> string \<Rightarrow> nat \<Rightarrow> string \<Rightarrow> nat \<Rightarrow> multer_file \<Rightarrow> MediaFile" where
  "mediaFile_of eId eType cId t uuid index f =
     \<lparr>id' = uuid, entityId = eId, entityType = eType, companyId = cId,
      filename = stored_filename f, originalName = originalname f, mimeType = mimetype f,
      size' = part_size f, createdAt = t, path = path_string (stored_at f),
      position = int index\<rparr>"

text \<open>
  Reading the aggregate: a missing file and text that does not parse (caught and
  logged) give the empty list; a parsed value that is not iterable makes the spread
  throw (\<open>None\<close>).
\<close>

definition read_existing :: "state \<Rightarrow> location \<Rightarrow> MediaFile list option" where
  "read_existing st metadataPath =
     (case lookup st metadataPath of
        None \<Rightarrow> Some []
      | Some (MediaDoc ms) \<Rightarrow> Some ms
      | Some (Blob b) \<Rightarrow> Some []
      | Some other \<Rightarrow> None)"

text \<open>The handler. Every failure after the validation is caught and answered 500; a
  write of the aggregate that fails is one.\<close>

definition upload_handler ::
  "state \<Rightarrow> nat \<Rightarrow> (nat \<Rightarrow> string) \<Rightarrow> (string \<rightharpoonup> string) \<Rightarrow> multer_file list \<Rightarrow> response \<times> state" where
  "upload_handler st t uu bdy fs =
     (if fs = [] then (Error 400 ''No files uploaded'', st)
      else if \<not> truthy (bdy ''entityId'') \<or> \<not> truthy (bdy ''entityType'')
              \<or> \<not> truthy (bdy ''companyId'')
      then (Error 400 ''Missing required fields'', st)
      else
        let eId = the (bdy ''entityId'');
            mediaFiles = map (\<lambda>(index, f).
                mediaFile_of eId (the (bdy ''entityType'')) (the (bdy ''companyId'')) t (uu index) index f)
              (enumerate 0 fs);
            cache' = foldl (\<lambda>c (index, m). cache_set t (eId @ ''-'' @ show_nat index) (CachedMedia m) c)
              (mediaCache st) (enumerate 0 mediaFiles);
            st1 = st\<lparr>mediaCache := cache'\<rparr>;
            metadataPath = path_join uploadDir (eId @ ''.json'')
        in if metadataPath = Elsewhere then (Outside, st1)
           else case read_existing st1 metadataPath of
                  None \<Rightarrow> (Error 500 ''Failed to process upload'', st1)
                | Some existingMetadata \<Rightarrow>
                    (case write_at t metadataPath
                            (MediaDoc (combinedMetadata existingMetadata mediaFiles)) st1 of
                       None \<Rightarrow> (Error 500 ''Failed to process upload'', st1)
                     | Some st2 \<Rightarrow> (Uploaded mediaFiles, st2)))"

text \<open>The route: \<open>serviceAuth()\<close>, then multer, then the handler. An error of multer
  reaches the global error handler of the application.\<close>

definition post_upload :: "state \<Rightarrow> upload_request \<Rightarrow> response \<times> state" where
  "post_upload st req =
     (if \<not> authenticated req then (Error 401 ''Unauthorized'', st)
      else case multer_array (uuids req) (race req) (now req) (parts req)
                  \<lparr>body = Map.empty, files = [], store = st, used = 0\<rparr> of
             Aborted st' \<Rightarrow> (Error 500 ''Internal server error'', st')
           | Escaped st' \<Rightarrow> (Outside, st')
           | Parsed m \<Rightarrow>
               upload_handler (store m) (now req)
                 (\<lambda>i. uuids req (used m + i)) (body m) (files m))"

section \<open>GET /entity/:entityId and GET /file/:filename\<close>





section \<open>DELETE /:entityId/:position\<close>

text \<open>\<open>fs.readdirSync\<close> throws when the directory is missing; the route catches it and
  answers 500.\<close>

definition delete_media :: "state \<Rightarrow> delete_request \<Rightarrow> response \<times> state" where
  "delete_media st req =
     (if \<not> authenticated req then (Error 401 ''Unauthorized'', st)
      else if \<not> truthy (q_companyId req) then (Error 400 ''Company ID is required'', st)
      else
        let cacheKey = p_entityId req @ ''-'' @ p_position req;
            mediaFile = cache_get (now req) cacheKey (mediaCache st)
        in if (case mediaFile of
                 None \<Rightarrow> False
               | Some m \<Rightarrow> cached_companyId m \<noteq> the (q_companyId req))
           then (Error 403 ''Unauthorized'', st)
           else
             case uploads st of
               None \<Rightarrow> (Error 500 ''Failed to delete file'', st)
             | Some d \<Rightarrow>
                 let fs = filter (prefix cacheKey) (readdirSync d)
                 in (Message ''Media deleted successfully'',
                     st\<lparr>uploads := Some (unlink_each d fs),
                        mediaCache := cache_del cacheKey (mediaCache st)\<rparr>))"

section \<open>The company logo routes\<close>

text \<open>\<open>logoStorage.filename\<close>: the name under which multer stores an incoming logo.\<close>

definition logo_temp_name :: "nat \<Rightarrow> string \<Rightarrow> string" where
  "logo_temp_name t original = ''temp-'' @ show_nat t @ extname original"

definition logo_prefix :: "string \<Rightarrow> string" where
  "logo_prefix cId = ''logo-'' @ cId"


definition logo_metadata_name :: "string \<Rightarrow> string" where
  "logo_metadata_name cId = ''logo-'' @ cId @ ''.json''"




text \<open>The filter both logo reads apply to the directory listing.\<close>

definition logo_matches :: "string \<Rightarrow> (content \<times> nat) dir \<Rightarrow> string list" where
  "logo_matches cId d =
     filter (\<lambda>name. prefix (logo_prefix cId) name \<and> \<not> suffix ''.json'' name) (readdirSync d)"

text \<open>
  GET /company-logo/:companyId takes the first match. The metadata file is parsed
  before the \<open>metadata\<close> flag is looked at, and text that does not parse makes the
  route fail, as a missing logo directory does.
\<close>

definition get_company_logo :: "state \<Rightarrow> logo_request \<Rightarrow> response" where
  "get_company_logo st req =
     (if \<not> authenticated req then Error 401 ''Unauthorized''
      else if p_companyId req = '''' then Error 400 ''Company ID is required''
      else
        case logos st of
          None \<Rightarrow> Error 500 ''Failed to retrieve company logo''
        | Some d \<Rightarrow>
            let fs = logo_matches (p_companyId req) d
            in if fs = [] then Error 404 ''Logo not found''
               else
                 let logoFile = hd fs
                 in case map_of d (logo_metadata_name (p_companyId req)) of
                      Some (Blob b, t) \<Rightarrow> Error 500 ''Failed to retrieve company logo''
                    | found \<Rightarrow>
                        if q_metadata req = Some ''true''
                        then LogoMetadata (map_option fst found)
                               (''/api/media/company-logo/'' @ p_companyId req @ ''/file'')
                        else SendFile logoFile)"

text \<open>\<open>fs.statSync(...).mtime.getTime()\<close> of a listed file.\<close>

definition mtime_of :: "(content \<times> nat) dir \<Rightarrow> string \<Rightarrow> nat" where
  "mtime_of d name = (case map_of d name of Some (c, t) \<Rightarrow> t | None \<Rightarrow> 0)"

text \<open>
  GET /company-logo/file/:companyId has no \<open>serviceAuth\<close>. It cuts the parameter at
  its first dot (\<open>split('.')[0]\<close>) and sorts the matches by modification time,
  latest first.
\<close>

definition get_company_logo_file :: "state \<Rightarrow> string \<Rightarrow> response" where
  "get_company_logo_file st param =
     (let cId = takeWhile (\<lambda>c. c \<noteq> CHR ''.'') param
      in case logos st of
           None \<Rightarrow> Error 500 ''Failed to serve logo file''
         | Some d \<Rightarrow>
             let fs = logo_matches cId d
             in if fs = [] then Error 404 ''Logo not found''
                else
                  let timed = map (\<lambda>name. (name, mtime_of d name)) fs;
                      logoFile = fst (hd (sort_key (\<lambda>a. - int (snd a)) timed))
                  in SendFile logoFile)"

section \<open>Sequences of requests and sample data\<close>


text \<open>Sample values for the worked examples below.\<close>

definition descr :: "string \<Rightarrow> int \<Rightarrow> MediaFile" where
  "descr i p =
     \<lparr>id' = i, entityId = ''E1'', entityType = ''product'', companyId = ''C1'',
      filename = ''E1-0.png'', originalName = ''a.png'', mimeType = ''image/png'',
      size' = 3, createdAt = 1000, path = ''uploads/E1-0.png'', position = p\<rparr>"

definition png :: "string \<Rightarrow> file_part" where
  "png name =
     \<lparr>originalname = name, mimetype = ''image/png'', part_size = length name, data = Blob name\<rparr>"

text \<open>The service before its first upload: no directory yet, an empty cache.\<close>

definition empty_state :: state where
  "empty_state = \<lparr>uploads = None, logos = None, mediaCache = Map.empty\<rparr>"

text \<open>The outcome of two streams writing one file in which the later stream's text is
  what the file holds in the end.\<close>

definition second_wins :: "content \<Rightarrow> content \<Rightarrow> content" where
  "second_wins earlier later = later"

definition sample_uuids :: "nat \<Rightarrow> string" where
  "sample_uuids n = ''uuid-'' @ show_nat n"

text \<open>An upload directory with files at positions 1 and 10 of entity \<open>E1\<close>, its
  aggregate, a file of another entity, and warm cache entries for both slots.\<close>

definition slot_state :: state where
  "slot_state =
     \<lparr>uploads = Some [(''E1-1.png'', Blob ''one''), (''E1-10.png'', Blob ''ten''),
                (''E1.json'', MediaDoc [descr ''a'' 1, descr ''b'' 10]),
                (''E2-1.png'', Blob ''other'')],
      logos = None,
      mediaCache = [''E1-1'' \<mapsto> (CachedMedia (descr ''a'' 1), 7201000),
                    ''E1-10'' \<mapsto> (CachedMedia (descr ''b'' 10), 7201000)]\<rparr>"

definition delete_req :: "string \<Rightarrow> delete_request" where
  "delete_req cId =
     \<lparr>authenticated = True, now = 2000, p_entityId = ''E1'', p_position = ''1'',
      q_companyId = Some cId\<rparr>"

definition two_png_request :: upload_request where
  "two_png_request =
     \<lparr>authenticated = True, now = 1000,
      parts = [Field ''entityId'' ''E1'', Field ''entityType'' ''product'',
               Field ''companyId'' ''C1'', FilePart (png ''a.png''), FilePart (png ''b.png'')],
      uuids = sample_uuids, race = second_wins\<rparr>"




text \<open>Sample logo requests, and a logo directory in which a race has left two logos of
  tenant \<open>1\<close>, beside the one logo of tenant \<open>2\<close>.\<close>

definition logo_req :: "string \<Rightarrow> string \<Rightarrow> nat \<Rightarrow> logo_upload_request" where
  "logo_req cId name t =
     \<lparr>authenticated = True, now = t, logo_part = Some (png name), b_companyId = Some cId,
      fresh_id = ''id-'' @ cId @ ''-'' @ name\<rparr>"


definition logo_file_req :: "string \<Rightarrow> nat \<Rightarrow> logo_request" where
  "logo_file_req cId t = \<lparr>authenticated = True, now = t, p_companyId = cId, q_metadata = None\<rparr>"

definition dup_logos :: "(content \<times> nat) dir" where
  "dup_logos =
     [(''logo-1.jpg'', (Blob ''old'', 5)), (''logo-1.png'', (Blob ''new'', 9)),
      (''logo-2.gif'', (Blob ''two'', 7))]"

definition dup_logo_state :: state where
  "dup_logo_state = \<lparr>uploads = Some [], logos = Some dup_logos, mediaCache = Map.empty\<rparr>"




section \<open>The merge keeps one descriptor per position, the latest, in ascending order\<close>

lemma merge_step_Nil: "merge_step [] c = [c]"
  by (simp add: merge_step_def)

lemma merge_step_Cons:
  "merge_step (a # acc) c = (if position a = position c then c # acc else a # merge_step acc c)"
  by (simp add: merge_step_def split: option.splits)

lemma set_positions_merge_step:
  "set (map position (merge_step acc c)) = insert (position c) (set (map position acc))"
  by (induction acc) (auto simp: merge_step_Nil merge_step_Cons)

lemma distinct_merge_step:
  "distinct (map position acc) \<Longrightarrow> distinct (map position (merge_step acc c))"
proof (induction acc)
  case Nil
  then show ?case by (simp add: merge_step_Nil)
next
  case (Cons a acc)
  then show ?case
    using set_positions_merge_step [of acc c]
    by (auto simp: merge_step_Cons)
qed

lemma filter_position_absent:
  "position (c::MediaFile) \<notin> position ` set acc \<Longrightarrow>
     filter (\<lambda>x. position x = position c) acc = []"
  by (induction acc) auto

lemma filter_merge_step:
  "distinct (map position acc) \<Longrightarrow>
   filter (\<lambda>x. position x = p) (merge_step acc c) =
     (if p = position c then [c] else filter (\<lambda>x. position x = p) acc)"
proof (induction acc)
  case Nil
  then show ?case by (auto simp: merge_step_Nil)
next
  case (Cons a acc)
  then show ?case
    by (auto simp: merge_step_Cons filter_position_absent)
qed

text \<open>The invariant of the \<open>reduce\<close>: positions stay distinct, and at each position
  sits the last element of the input that has it.\<close>

lemma reduce_invariant:
  "distinct (map position (foldl merge_step [] xs)) \<and>
   (\<forall>p. filter (\<lambda>x. position x = p) (foldl merge_step [] xs) =
      (if filter (\<lambda>x. position x = p) xs = [] then []
       else [last (filter (\<lambda>x. position x = p) xs)]))"
proof (induction xs rule: rev_induct)
  case Nil
  then show ?case by simp
next
  case (snoc c xs)
  then show ?case
    by (simp add: distinct_merge_step filter_merge_step)
qed

lemma reduce_positions:
  "position ` set (foldl merge_step [] xs) = position ` set xs"
proof (induction xs rule: rev_induct)
  case Nil
  then show ?case by simp
next
  case (snoc c xs)
  then show ?case
    using set_positions_merge_step [of "foldl merge_step [] xs" c] by simp
qed

lemma reduce_member:
  assumes "x \<in> set (foldl merge_step [] xs)"
  shows "x = last (filter (\<lambda>y. position y = position x) xs)"
proof -
  let ?F = "filter (\<lambda>y. position y = position x)"
  from assms have "x \<in> set (?F (foldl merge_step [] xs))" by simp
  moreover have "?F (foldl merge_step [] xs) = (if ?F xs = [] then [] else [last (?F xs)])"
    using reduce_invariant [of xs] by blast
  ultimately show ?thesis by (simp split: if_splits)
qed

text \<open>
  C1. Whatever the aggregate \<open>old\<close> and the batch \<open>new\<close> are, the merged list has
  pairwise distinct positions, is sorted ascending by position, and has exactly the
  positions that occur in \<open>old\<close> or \<open>new\<close>. Its descriptor at a position that occurs
  in the batch is the last descriptor of the batch with that position (the batch wins
  over the aggregate, and a later element of the batch over an earlier one); at any
  other position it is the last descriptor of the aggregate with that position.
\<close>

theorem combinedMetadata_merge:
  "distinct (map position (combinedMetadata old new))
   \<and> sorted (map position (combinedMetadata old new))
   \<and> position ` set (combinedMetadata old new) = position ` (set old \<union> set new)
   \<and> (\<forall>x \<in> set (combinedMetadata old new).
         (position x \<in> position ` set new \<longrightarrow>
            x = last (filter (\<lambda>y. position y = position x) new)) \<and>
         (position x \<notin> position ` set new \<longrightarrow>
            x = last (filter (\<lambda>y. position y = position x) old)))"
proof (intro conjI ballI impI)
  have "distinct (map position (foldl merge_step [] (old @ new)))"
    using reduce_invariant [of "old @ new"] by blast
  then show "distinct (map position (combinedMetadata old new))"
    by (simp add: combinedMetadata_def distinct_map)
next
  show "sorted (map position (combinedMetadata old new))"
    by (simp add: combinedMetadata_def)
next
  show "position ` set (combinedMetadata old new) = position ` (set old \<union> set new)"
    using reduce_positions [of "old @ new"] by (simp add: combinedMetadata_def)
next
  fix x
  assume x: "x \<in> set (combinedMetadata old new)" and p: "position x \<in> position ` set new"
  from x have "x \<in> set (foldl merge_step [] (old @ new))"
    by (simp add: combinedMetadata_def)
  then have "x = last (filter (\<lambda>y. position y = position x) (old @ new))"
    by (rule reduce_member)
  moreover from p have "filter (\<lambda>y. position y = position x) new \<noteq> []"
    by (auto simp: filter_empty_conv)
  ultimately show "x = last (filter (\<lambda>y. position y = position x) new)"
    by simp
next
  fix x
  assume x: "x \<in> set (combinedMetadata old new)" and p: "position x \<notin> position ` set new"
  from x have "x \<in> set (foldl merge_step [] (old @ new))"
    by (simp add: combinedMetadata_def)
  then have "x = last (filter (\<lambda>y. position y = position x) (old @ new))"
    by (rule reduce_member)
  moreover from p have "filter (\<lambda>y. position y = position x) new = []"
    by (rule filter_position_absent)
  ultimately show "x = last (filter (\<lambda>y. position y = position x) old)"
    by simp
qed

theorem combinedMetadata_merge_witness:
  "descr ''e'' 1 \<in> set (combinedMetadata [descr ''a'' 1, descr ''b'' 0] [descr ''c'' 1, descr ''d'' 2, descr ''e'' 1])
   \<and> position (descr ''e'' 1) \<in> position ` set [descr ''c'' 1, descr ''d'' 2, descr ''e'' 1]
   \<and> descr ''e'' 1 = last (filter (\<lambda>y. position y = position (descr ''e'' 1)) [descr ''c'' 1, descr ''d'' 2, descr ''e'' 1])
   \<and> descr ''b'' 0 \<in> set (combinedMetadata [descr ''a'' 1, descr ''b'' 0] [descr ''c'' 1, descr ''d'' 2, descr ''e'' 1])
   \<and> position (descr ''b'' 0) \<notin> position ` set [descr ''c'' 1, descr ''d'' 2, descr ''e'' 1]
   \<and> descr ''b'' 0 = last (filter (\<lambda>y. position y = position (descr ''b'' 0)) [descr ''a'' 1, descr ''b'' 0])"
proof -
  let ?old = "[descr ''a'' 1, descr ''b'' 0]"
  let ?new = "[descr ''c'' 1, descr ''d'' 2, descr ''e'' 1]"
  have e: "descr ''e'' 1 \<in> set (combinedMetadata ?old ?new)"
    and b: "descr ''b'' 0 \<in> set (combinedMetadata ?old ?new)"
    by (simp_all add: combinedMetadata_def merge_step_def descr_def)
  have pe: "position (descr ''e'' 1) \<in> position ` set ?new"
    and pb: "position (descr ''b'' 0) \<notin> position ` set ?new"
    by (simp_all add: descr_def)
  from combinedMetadata_merge [of ?old ?new] e pe
  have "descr ''e'' 1 = last (filter (\<lambda>y. position y = position (descr ''e'' 1)) ?new)"
    by blast
  moreover from combinedMetadata_merge [of ?old ?new] b pb
  have "descr ''b'' 0 = last (filter (\<lambda>y. position y = position (descr ''b'' 0)) ?old)"
    by blast
  ultimately show ?thesis using e b pe pb by blast
qed

section \<open>Decimal printing\<close>

lemma digit_inj: "a < 10 \<Longrightarrow> b < 10 \<Longrightarrow> digit a = digit b \<Longrightarrow> a = b"
proof -
  assume a: "a < 10" and b: "b < 10" and e: "digit a = digit b"
  have d: "distinct ''0123456789''" by simp
  have l: "length ''0123456789'' = 10" by simp
  from e have "''0123456789'' ! a = ''0123456789'' ! b" by (simp add: digit_def)
  with nth_eq_iff_index_eq [OF d, of a b] a b l show "a = b" by simp
qed

lemma show_nat_nonempty: "show_nat n \<noteq> []"
  by (subst show_nat.simps) simp

lemma digit_in_digits: "d < 10 \<Longrightarrow> digit d \<in> set ''0123456789''"
  unfolding digit_def by (rule nth_mem) simp

lemma show_nat_digits: "set (show_nat n) \<subseteq> set ''0123456789''"
proof (induction n rule: show_nat.induct)
  case (1 n)
  show ?case
  proof (cases "n < 10")
    case True
    then show ?thesis using digit_in_digits [of n] by (subst show_nat.simps) simp
  next
    case False
    have "n mod 10 < 10" by simp
    then have "digit (n mod 10) \<in> set ''0123456789''" by (rule digit_in_digits)
    with False 1 show ?thesis by (subst show_nat.simps) simp
  qed
qed

lemma show_nat_inj: "show_nat n = show_nat m \<Longrightarrow> n = m"
proof (induction n arbitrary: m rule: show_nat.induct)
  case (1 n)
  show ?case
  proof (cases "n < 10")
    case n: True
    show ?thesis
    proof (cases "m < 10")
      case True
      with n 1(2) show ?thesis
        by (simp add: show_nat.simps [of n] show_nat.simps [of m] digit_inj)
    next
      case False
      with n 1(2) show ?thesis
        using show_nat_nonempty [of "m div 10"]
        by (simp add: show_nat.simps [of n] show_nat.simps [of m])
    qed
  next
    case n: False
    show ?thesis
    proof (cases "m < 10")
      case True
      with n 1(2) show ?thesis
        using show_nat_nonempty [of "n div 10"]
        by (simp add: show_nat.simps [of n] show_nat.simps [of m])
    next
      case False
      with n 1(2) have s: "show_nat (n div 10) = show_nat (m div 10)"
        and d: "digit (n mod 10) = digit (m mod 10)"
        by (simp_all add: show_nat.simps [of n] show_nat.simps [of m])
      from 1(1) [OF n s] have "n div 10 = m div 10" .
      moreover from d have "n mod 10 = m mod 10" by (simp add: digit_inj)
      ultimately show ?thesis by (metis div_mult_mod_eq)
    qed
  qed
qed

lemma show_nat_1: "show_nat 1 = ''1''" "show_nat (Suc 0) = ''1''"
  by (simp_all add: show_nat.simps digit_def)

lemma show_nat_10: "show_nat 10 = ''10''"
  by (simp add: show_nat.simps digit_def)

section \<open>Removing listed files\<close>

lemma unlink_step: "(if existsSync d n then unlinkSync d n else d) = AList.delete n d"
  by (simp add: existsSync_def unlinkSync_def map_of_eq_None_iff)

lemma unlink_each_filter: "unlink_each d ns = filter (\<lambda>e. fst e \<notin> set ns) d"
proof (induction ns arbitrary: d)
  case Nil
  then show ?case by (simp add: unlink_each_def)
next
  case (Cons n ns)
  have "unlink_each d (n # ns) = unlink_each (AList.delete n d) ns"
    by (simp add: unlink_each_def unlink_step)
  also have "\<dots> = filter (\<lambda>e. fst e \<notin> set ns) (AList.delete n d)"
    by (rule Cons.IH)
  also have "\<dots> = filter (\<lambda>e. fst e \<notin> set (n # ns)) d"
    by (auto simp: AList.delete_eq intro: filter_cong)
  finally show ?case .
qed

lemma unlink_listed: "unlink_each d (filter P (readdirSync d)) = filter (\<lambda>e. \<not> P (fst e)) d"
  by (auto simp: unlink_each_filter readdirSync_def intro: filter_cong)

lemma map_of_without_prefix:
  "map_of (filter (\<lambda>e. \<not> prefix k (fst e)) d) n = (if prefix k n then None else map_of d n)"
  by (induction d) auto

section \<open>Names that stay in the directory they are joined to\<close>







section \<open>DELETE: the ownership check and what is removed\<close>

lemma delete_media_effect:
  assumes "fst (delete_media st req) = Message ''Media deleted successfully''"
  shows "\<exists>d. uploads st = Some d \<and>
           snd (delete_media st req) =
             st\<lparr>uploads := Some (filter (\<lambda>e. \<not> prefix (p_entityId req @ ''-'' @ p_position req) (fst e)) d),
                mediaCache := (mediaCache st)((p_entityId req @ ''-'' @ p_position req) := None)\<rparr>"
  using assms
  by (simp add: delete_media_def Let_def unlink_listed cache_del_def split: if_splits option.splits)

lemma delete_ok:
  "fst (delete_media slot_state (delete_req ''C1'')) = Message ''Media deleted successfully''"
  by (simp add: delete_media_def Let_def delete_req_def slot_state_def truthy_def
      cache_get_def descr_def)

lemma readFile_without_prefix:
  "readFile (Some (filter (\<lambda>e. \<not> prefix k (fst e)) d)) n
     = (if prefix k n then None else readFile (Some d) n)"
  by (simp add: readFile_def map_of_without_prefix)

text \<open>
  C5. For an authenticated delete request with a companyId: when the cache holds a
  live entry for the key \<open>entityId-position\<close> whose companyId differs from the
  asserted one, the answer is 403 and nothing changes; when the entry's companyId
  is the asserted one, or the cache holds no live entry for the key, the request is
  let through to the removal, which succeeds (or answers 500 if the upload directory
  has never been created). Whether the answer is 403 does not depend on the upload
  directory, where the aggregate is: no other lookup is made.
\<close>

theorem delete_authorization:
  assumes "authenticated req" and "truthy (q_companyId req)"
  shows "(\<forall>m. cache_get (now req) (p_entityId req @ ''-'' @ p_position req) (mediaCache st) = Some m
              \<and> cached_companyId m \<noteq> the (q_companyId req)
            \<longrightarrow> delete_media st req = (Error 403 ''Unauthorized'', st))
       \<and> (\<forall>m. cache_get (now req) (p_entityId req @ ''-'' @ p_position req) (mediaCache st) = Some m
              \<and> cached_companyId m = the (q_companyId req)
            \<longrightarrow> fst (delete_media st req) =
                  (if uploads st = None then Error 500 ''Failed to delete file''
                   else Message ''Media deleted successfully''))
       \<and> (cache_get (now req) (p_entityId req @ ''-'' @ p_position req) (mediaCache st) = None
            \<longrightarrow> fst (delete_media st req) =
                  (if uploads st = None then Error 500 ''Failed to delete file''
                   else Message ''Media deleted successfully''))
       \<and> (\<forall>u l. (fst (delete_media (st\<lparr>uploads := u, logos := l\<rparr>) req) = Error 403 ''Unauthorized'')
                  = (fst (delete_media st req) = Error 403 ''Unauthorized''))"
  using assms by (simp add: delete_media_def Let_def split: option.splits)

theorem delete_authorization_witness:
  "authenticated (delete_req ''C2'') \<and> truthy (q_companyId (delete_req ''C2''))
   \<and> cache_get 2000 ''E1-1'' (mediaCache slot_state) = Some (CachedMedia (descr ''a'' 1))
   \<and> delete_media slot_state (delete_req ''C2'') = (Error 403 ''Unauthorized'', slot_state)
   \<and> fst (delete_media slot_state (delete_req ''C1'')) = Message ''Media deleted successfully''
   \<and> cache_get 2000 ''E1-1'' (mediaCache (slot_state\<lparr>mediaCache := Map.empty\<rparr>)) = None
   \<and> fst (delete_media (slot_state\<lparr>mediaCache := Map.empty\<rparr>) (delete_req ''C2''))
        = Message ''Media deleted successfully''"
proof -
  have a: "authenticated (delete_req c)" and t2: "truthy (q_companyId (delete_req ''C2''))"
    and t1: "truthy (q_companyId (delete_req ''C1''))" for c
    by (simp_all add: delete_req_def truthy_def)
  have g: "cache_get (now (delete_req c)) (p_entityId (delete_req c) @ ''-'' @ p_position (delete_req c))
             (mediaCache slot_state) = Some (CachedMedia (descr ''a'' 1))" for c
    by (simp add: delete_req_def slot_state_def cache_get_def)
  have n: "cache_get (now (delete_req c)) (p_entityId (delete_req c) @ ''-'' @ p_position (delete_req c))
             (mediaCache (slot_state\<lparr>mediaCache := Map.empty\<rparr>)) = None" for c
    by (simp add: cache_get_def)
  have o: "cached_companyId (CachedMedia (descr ''a'' 1)) = ''C1''"
    by (simp add: descr_def)
  have u: "uploads slot_state \<noteq> None" "uploads (slot_state\<lparr>mediaCache := Map.empty\<rparr>) \<noteq> None"
    by (simp_all add: slot_state_def)
  have "delete_media slot_state (delete_req ''C2'') = (Error 403 ''Unauthorized'', slot_state)"
    using delete_authorization [OF a t2, of slot_state] g [of "''C2''"] o
    by (simp add: delete_req_def)
  moreover have "fst (delete_media slot_state (delete_req ''C1'')) = Message ''Media deleted successfully''"
    using delete_authorization [OF a t1, of slot_state] g [of "''C1''"] o u
    by (simp add: delete_req_def)
  moreover have "fst (delete_media (slot_state\<lparr>mediaCache := Map.empty\<rparr>) (delete_req ''C2''))
        = Message ''Media deleted successfully''"
    using delete_authorization [OF a t2, of "slot_state\<lparr>mediaCache := Map.empty\<rparr>"] n [of "''C2''"] u
    by simp
  ultimately show ?thesis
    using a t2 g [of "''C2''"] n [of "''C2''"] by (simp add: delete_req_def)
qed

text \<open>
  C9. A delete that went through removes from the upload directory exactly the
  entries whose name begins with \<open>entityId-position\<close> and keeps the others as they
  were; it removes the one cache entry of that key. So with position \<open>p\<close>, a file
  at a position \<open>q\<close> whose decimal form begins with that of \<open>p\<close> is removed too,
  while the cache entry of every position other than \<open>p\<close> stays.
\<close>

theorem delete_removes_by_prefix:
  assumes "fst (delete_media st req) = Message ''Media deleted successfully''"
  shows "(\<exists>d. uploads st = Some d
            \<and> uploads (snd (delete_media st req))
                = Some (filter (\<lambda>e. \<not> prefix (p_entityId req @ ''-'' @ p_position req) (fst e)) d))
       \<and> mediaCache (snd (delete_media st req))
           = (mediaCache st)((p_entityId req @ ''-'' @ p_position req) := None)
       \<and> (\<forall>p q ext. p_position req = show_nat p \<and> prefix (show_nat p) (show_nat q) \<longrightarrow>
              readFile (uploads (snd (delete_media st req)))
                   (p_entityId req @ ''-'' @ show_nat q @ ext) = None)
       \<and> (\<forall>p q. p_position req = show_nat p \<and> q \<noteq> p \<longrightarrow>
              mediaCache (snd (delete_media st req)) (p_entityId req @ ''-'' @ show_nat q)
                = mediaCache st (p_entityId req @ ''-'' @ show_nat q))"
proof -
  let ?key = "p_entityId req @ ''-'' @ p_position req"
  let ?st' = "snd (delete_media st req)"
  from delete_media_effect [OF assms] obtain d where d: "uploads st = Some d"
    and up: "uploads ?st' = Some (filter (\<lambda>e. \<not> prefix ?key (fst e)) d)"
    and ca: "mediaCache ?st' = (mediaCache st)(?key := None)"
    by auto
  have ext: "\<forall>p q ext. p_position req = show_nat p \<and> prefix (show_nat p) (show_nat q) \<longrightarrow>
              readFile (uploads ?st') (p_entityId req @ ''-'' @ show_nat q @ ext) = None"
  proof (intro allI impI)
    fix p q ext
    assume h: "p_position req = show_nat p \<and> prefix (show_nat p) (show_nat q)"
    then have "prefix ?key (p_entityId req @ ''-'' @ show_nat q @ ext)"
      by (auto simp: prefix_def)
    then show "readFile (uploads ?st') (p_entityId req @ ''-'' @ show_nat q @ ext) = None"
      unfolding up by (simp only: readFile_without_prefix if_True)
  qed
  have oth: "\<forall>p q. p_position req = show_nat p \<and> q \<noteq> p \<longrightarrow>
              mediaCache ?st' (p_entityId req @ ''-'' @ show_nat q)
                = mediaCache st (p_entityId req @ ''-'' @ show_nat q)"
    unfolding ca by (auto dest: show_nat_inj)
  from d up ca ext oth show ?thesis by simp
qed

theorem delete_removes_by_prefix_witness:
  "fst (delete_media slot_state (delete_req ''C1'')) = Message ''Media deleted successfully''
   \<and> p_position (delete_req ''C1'') = show_nat 1 \<and> prefix (show_nat 1) (show_nat 10)
   \<and> readFile (uploads slot_state) ''E1-10.png'' = Some (Blob ''ten'')
   \<and> readFile (uploads (snd (delete_media slot_state (delete_req ''C1'')))) ''E1-10.png'' = None
   \<and> uploads (snd (delete_media slot_state (delete_req ''C1'')))
        = Some [(''E1.json'', MediaDoc [descr ''a'' 1, descr ''b'' 10]), (''E2-1.png'', Blob ''other'')]
   \<and> mediaCache (snd (delete_media slot_state (delete_req ''C1''))) ''E1-1'' = None
   \<and> mediaCache (snd (delete_media slot_state (delete_req ''C1''))) ''E1-10''
        = Some (CachedMedia (descr ''b'' 10), 7201000)"
proof -
  let ?st' = "snd (delete_media slot_state (delete_req ''C1''))"
  note w = delete_removes_by_prefix [OF delete_ok]
  have k: "p_entityId (delete_req ''C1'') @ ''-'' @ p_position (delete_req ''C1'') = ''E1-1''"
    and e: "p_entityId (delete_req ''C1'') = ''E1''"
    and p: "p_position (delete_req ''C1'') = show_nat 1"
    by (simp_all add: delete_req_def show_nat_1)
  have pq: "prefix (show_nat 1) (show_nat 10)"
    by (simp add: show_nat_1 show_nat_10)
  from w obtain d where "uploads slot_state = Some d"
    and "uploads ?st' = Some (filter (\<lambda>e. \<not> prefix ''E1-1'' (fst e)) d)"
    unfolding k by blast
  then have up: "uploads ?st' = Some [(''E1.json'', MediaDoc [descr ''a'' 1, descr ''b'' 10]), (''E2-1.png'', Blob ''other'')]"
    by (auto simp: slot_state_def)
  from w have "mediaCache ?st' = (mediaCache slot_state)(''E1-1'' := None)"
    unfolding k by blast
  then have ca: "mediaCache ?st' ''E1-1'' = None"
    "mediaCache ?st' ''E1-10'' = Some (CachedMedia (descr ''b'' 10), 7201000)"
    by (simp_all add: slot_state_def)
  from w p pq have "readFile (uploads ?st') (p_entityId (delete_req ''C1'') @ ''-'' @ show_nat 10 @ ''.png'') = None"
    by blast
  then have ex: "readFile (uploads ?st') ''E1-10.png'' = None"
    by (simp add: e show_nat_10)
  have pre: "readFile (uploads slot_state) ''E1-10.png'' = Some (Blob ''ten'')"
    by (simp add: slot_state_def readFile_def)
  from delete_ok p pq pre ex up ca show ?thesis by simp
qed


lemma extname_a: "extname ''a.png'' = ''.png''" "extname ''b.png'' = ''.png''"
  by (simp_all add: extname_def basename_part_def)







section \<open>POST /upload: stored names, and what a rejected request leaves behind\<close>

text \<open>
  C2. Two files \<open>a.png\<close> and \<open>b.png\<close> uploaded for \<open>E1\<close> without a \<open>position\<close>
  field: the descriptors returned have positions 0 and 1, and both have the stored
  name \<open>E1-0.png\<close>, because \<open>storage.filename\<close> takes the position from the body of
  the request, not from the index of the file. Both files were written to that one
  name, and no \<open>E1-1.png\<close> exists. The file holds the text of \<open>b.png\<close> when the
  second of the two writes is the one that lasts, as in this request.
\<close>

theorem upload_two_files_one_stored_name:
  "map (\<lambda>m. (position m, filename m, originalName m))
       (case fst (post_upload empty_state two_png_request) of Uploaded ms \<Rightarrow> ms | _ \<Rightarrow> [])
     = [(0, ''E1-0.png'', ''a.png''), (1, ''E1-0.png'', ''b.png'')]
   \<and> readFile (uploads (snd (post_upload empty_state two_png_request))) ''E1-0.png'' = Some (Blob ''b.png'')
   \<and> readFile (uploads (snd (post_upload empty_state two_png_request))) ''E1-1.png'' = None"
  by (simp add: post_upload_def two_png_request_def empty_state_def png_def fileFilter_def
      ALLOWED_MIME_TYPES_def storage_filename_def truthy_def extname_a writeFile_def
      destination_def readFile_def path_join_def uploadDir_def locate_def second_wins_def
      upload_handler_def Let_def read_existing_def mediaFile_of_def enumerate_eq_zip
      combinedMetadata_def merge_step_def)












section \<open>Logo uploads: the staging name\<close>

lemma extname_shape: "extname p = [] \<or> (\<exists>e. extname p = CHR ''.'' # e)"
  by (simp add: extname_def Let_def)

lemma digits_of_show_nat_append:
  assumes "x = [] \<or> (\<exists>e. x = CHR ''.'' # e)"
  shows "takeWhile (\<lambda>c. c \<in> set ''0123456789'') (show_nat n @ x) = show_nat n"
proof -
  define P where "P = (\<lambda>c. c \<in> set ''0123456789'')"
  have "\<forall>c \<in> set (show_nat n). P c"
    unfolding P_def using show_nat_digits [of n] by blast
  then have whole: "takeWhile P (show_nat n) = show_nat n"
    by (simp only: takeWhile_eq_all_conv)
  have dot: "\<not> P CHR ''.''"
    unfolding P_def by simp
  from assms have "takeWhile P (show_nat n @ x) = show_nat n"
  proof
    assume "x = []"
    with whole show ?thesis by (simp only: append_Nil2)
  next
    assume "\<exists>e. x = CHR ''.'' # e"
    then obtain e where x: "x = CHR ''.'' # e" ..
    from dot have "takeWhile P (show_nat n @ CHR ''.'' # e) = takeWhile P (show_nat n)"
      by (rule takeWhile_tail)
    with whole x show ?thesis by (simp only:)
  qed
  then show ?thesis unfolding P_def .
qed

text \<open>
  C8, as the claim states it, fails: the staging name is built from the clock, and two
  different requests served in the same millisecond with files of the same extension
  get the same staging name.
\<close>

theorem staging_names_collide:
  "logo_req ''A'' ''a.png'' 1000 \<noteq> logo_req ''B'' ''b.png'' 1000
   \<and> logo_temp_name (now (logo_req ''A'' ''a.png'' 1000)) ''a.png''
       = logo_temp_name (now (logo_req ''B'' ''b.png'' 1000)) ''b.png''"
  by (simp add: logo_req_def logo_temp_name_def extname_a)

text \<open>
  C8, amended. Two logo uploads get the same staging name exactly when they are
  served in the same millisecond and their files have the same extension; uploads
  served at different milliseconds get different staging names.
\<close>

theorem logo_temp_name_collides_iff:
  "(logo_temp_name t1 o1 = logo_temp_name t2 o2) = (t1 = t2 \<and> extname o1 = extname o2)"
proof
  assume "logo_temp_name t1 o1 = logo_temp_name t2 o2"
  then have eq: "show_nat t1 @ extname o1 = show_nat t2 @ extname o2"
    by (simp add: logo_temp_name_def)
  then have "takeWhile (\<lambda>c. c \<in> set ''0123456789'') (show_nat t1 @ extname o1)
      = takeWhile (\<lambda>c. c \<in> set ''0123456789'') (show_nat t2 @ extname o2)"
    by simp
  then have "show_nat t1 = show_nat t2"
    by (simp only: digits_of_show_nat_append [OF extname_shape])
  then have t: "t1 = t2" by (rule show_nat_inj)
  with eq show "t1 = t2 \<and> extname o1 = extname o2" by simp
next
  assume "t1 = t2 \<and> extname o1 = extname o2"
  then show "logo_temp_name t1 o1 = logo_temp_name t2 o2"
    by (simp add: logo_temp_name_def)
qed

theorem logo_temp_name_collides_iff_witness:
  "logo_temp_name 1000 ''a.png'' \<noteq> logo_temp_name 1001 ''b.png''
   \<and> logo_temp_name 1000 ''a.png'' \<noteq> logo_temp_name 1000 ''b.jpg''"
  using logo_temp_name_collides_iff [of 1000 "''a.png''" 1001 "''b.png''"]
    logo_temp_name_collides_iff [of 1000 "''a.png''" 1000 "''b.jpg''"]
  by (simp add: extname_def basename_part_def)

section \<open>Logo uploads: one logo per tenant\<close>























section \<open>Logo reads: which object is served\<close>

lemma hd_sort_key_least:
  assumes "xs \<noteq> []"
  shows "hd (sort_key f xs) \<in> set xs \<and> (\<forall>y \<in> set xs. f (hd (sort_key f xs)) \<le> f y)"
proof -
  from assms have "length (sort_key f xs) \<noteq> 0" by simp
  then obtain a as where ys: "sort_key f xs = a # as"
    by (cases "sort_key f xs") auto
  have "sorted (map f (sort_key f xs))" by simp
  with ys have le: "\<forall>y \<in> set as. f a \<le> f y" by simp
  have "set (a # as) = set xs" using ys set_sort [of f xs] by simp
  with le ys show ?thesis by auto
qed

lemma dup_matches: "logo_matches ''1'' dup_logos = [''logo-1.jpg'', ''logo-1.png'']"
  by (simp add: logo_matches_def dup_logos_def readdirSync_def logo_prefix_def suffix_def
      less_eq_char_def less_char_def)

text \<open>
  C4, as the claim states it, fails on GET /company-logo/:companyId: with two
  matching objects it serves the first of the listing, here the older one. And
  before the first logo upload, when the logo directory does not exist yet, a fetch
  is answered 500, not 404.
\<close>

theorem authenticated_logo_fetch_serves_first:
  "logos dup_logo_state = Some dup_logos
   \<and> logo_matches ''1'' dup_logos = [''logo-1.jpg'', ''logo-1.png'']
   \<and> mtime_of dup_logos ''logo-1.jpg'' = 5
   \<and> mtime_of dup_logos ''logo-1.png'' = 9
   \<and> get_company_logo dup_logo_state (logo_file_req ''1'' 10) = SendFile ''logo-1.jpg''
   \<and> get_company_logo_file empty_state ''1'' = Error 500 ''Failed to serve logo file''"
  by (simp add: dup_matches get_company_logo_def get_company_logo_file_def logo_file_req_def
        dup_logo_state_def empty_state_def)
     (simp add: dup_logos_def mtime_of_def logo_metadata_name_def)

text \<open>
  C4, amended. When the logo directory exists (it does after the first logo upload),
  GET /company-logo/file/:companyId answers 404 when no object matches;
  otherwise it serves a matching object whose modification time is the latest among
  the matches, which is the match itself when there is exactly one.
  GET /company-logo/:companyId answers 404 when no object matches, and serves the
  match when there is exactly one, the file is asked for and the metadata document
  parses.
\<close>

theorem logo_fetch_selection:
  assumes "logos st = Some d"
  shows "(logo_matches (takeWhile (\<lambda>c. c \<noteq> CHR ''.'') param) d = [] \<longrightarrow>
      get_company_logo_file st param = Error 404 ''Logo not found'')
   \<and> (logo_matches (takeWhile (\<lambda>c. c \<noteq> CHR ''.'') param) d \<noteq> [] \<longrightarrow>
        (\<exists>name \<in> set (logo_matches (takeWhile (\<lambda>c. c \<noteq> CHR ''.'') param) d).
           get_company_logo_file st param = SendFile name
           \<and> (\<forall>other \<in> set (logo_matches (takeWhile (\<lambda>c. c \<noteq> CHR ''.'') param) d).
                 mtime_of d other \<le> mtime_of d name)))
   \<and> (\<forall>name. logo_matches (takeWhile (\<lambda>c. c \<noteq> CHR ''.'') param) d = [name] \<longrightarrow>
        get_company_logo_file st param = SendFile name)
   \<and> (authenticated req \<and> p_companyId req \<noteq> [] \<longrightarrow>
        (logo_matches (p_companyId req) d = [] \<longrightarrow>
           get_company_logo st req = Error 404 ''Logo not found'')
        \<and> (\<forall>name. logo_matches (p_companyId req) d = [name]
             \<and> q_metadata req \<noteq> Some ''true''
             \<and> (\<forall>b t. map_of d (logo_metadata_name (p_companyId req)) \<noteq> Some (Blob b, t)) \<longrightarrow>
           get_company_logo st req = SendFile name))"
proof -
  let ?fs = "logo_matches (takeWhile (\<lambda>c. c \<noteq> CHR ''.'') param) d"
  let ?timed = "map (\<lambda>name. (name, mtime_of d name)) ?fs"
  let ?key = "\<lambda>a :: string \<times> nat. - int (snd a)"
  let ?best = "hd (sort_key ?key ?timed)"
  have none: "?fs = [] \<longrightarrow> get_company_logo_file st param = Error 404 ''Logo not found''"
    using assms by (simp add: get_company_logo_file_def)
  have served: "?fs \<noteq> [] \<longrightarrow> get_company_logo_file st param = SendFile (fst ?best)"
    using assms by (simp add: get_company_logo_file_def Let_def)
  have latest: "fst ?best \<in> set ?fs
      \<and> (\<forall>other \<in> set ?fs. mtime_of d other \<le> mtime_of d (fst ?best))"
    if ne: "?fs \<noteq> []"
  proof -
    from ne have "?timed \<noteq> []" by simp
    from hd_sort_key_least [OF this, of ?key]
    have mem: "?best \<in> set ?timed" and le: "\<forall>y \<in> set ?timed. ?key ?best \<le> ?key y"
      by blast+
    from mem have shape: "fst ?best \<in> set ?fs" "snd ?best = mtime_of d (fst ?best)"
      by auto
    have "mtime_of d other \<le> mtime_of d (fst ?best)" if "other \<in> set ?fs" for other
    proof -
      from that have "(other, mtime_of d other) \<in> set ?timed" by simp
      with le have "?key ?best \<le> ?key (other, mtime_of d other)" by blast
      with shape(2) show ?thesis by simp
    qed
    with shape(1) show ?thesis by blast
  qed
  have many: "?fs \<noteq> [] \<longrightarrow>
        (\<exists>name \<in> set ?fs. get_company_logo_file st param = SendFile name
           \<and> (\<forall>other \<in> set ?fs. mtime_of d other \<le> mtime_of d name))"
    using served latest by blast
  have one: "\<forall>name. ?fs = [name] \<longrightarrow> get_company_logo_file st param = SendFile name"
  proof (intro allI impI)
    fix name assume "?fs = [name]"
    with assms show "get_company_logo_file st param = SendFile name"
      by (simp add: get_company_logo_file_def Let_def)
  qed
  have auth: "authenticated req \<and> p_companyId req \<noteq> [] \<longrightarrow>
        (logo_matches (p_companyId req) d = [] \<longrightarrow>
           get_company_logo st req = Error 404 ''Logo not found'')
        \<and> (\<forall>name. logo_matches (p_companyId req) d = [name]
             \<and> q_metadata req \<noteq> Some ''true''
             \<and> (\<forall>b t. map_of d (logo_metadata_name (p_companyId req)) \<noteq> Some (Blob b, t)) \<longrightarrow>
           get_company_logo st req = SendFile name)"
    using assms
    by (auto simp: get_company_logo_def Let_def split: option.splits content.splits prod.splits)
  from none many one auth show ?thesis by blast
qed

theorem logo_fetch_selection_witness:
  "logos dup_logo_state = Some dup_logos
   \<and> logo_matches (takeWhile (\<lambda>c. c \<noteq> CHR ''.'') ''1'') dup_logos \<noteq> []
   \<and> get_company_logo_file dup_logo_state ''1'' = SendFile ''logo-1.png''
   \<and> logo_matches ''9'' dup_logos = []
   \<and> get_company_logo_file dup_logo_state ''9'' = Error 404 ''Logo not found''
   \<and> authenticated (logo_file_req ''2'' 10) \<and> p_companyId (logo_file_req ''2'' 10) \<noteq> []
   \<and> q_metadata (logo_file_req ''2'' 10) \<noteq> Some ''true''
   \<and> logo_matches ''2'' dup_logos = [''logo-2.gif'']
   \<and> get_company_logo dup_logo_state (logo_file_req ''2'' 10) = SendFile ''logo-2.gif''"
proof -
  have ex: "logos dup_logo_state = Some dup_logos" by (simp add: dup_logo_state_def)
  note w = logo_fetch_selection [OF ex, of "''1''" "logo_file_req ''2'' 10"]
  note w9 = logo_fetch_selection [OF ex, of "''9''" "logo_file_req ''2'' 10"]
  have p: "takeWhile (\<lambda>c. c \<noteq> CHR ''.'') ''1'' = ''1''" "takeWhile (\<lambda>c. c \<noteq> CHR ''.'') ''9'' = ''9''"
    by simp_all
  have ne: "logo_matches ''1'' dup_logos \<noteq> []"
    by (simp add: dup_matches)
  have mt: "mtime_of dup_logos ''logo-1.jpg'' = 5" "mtime_of dup_logos ''logo-1.png'' = 9"
    by (simp_all add: dup_logos_def mtime_of_def)
  from w ne obtain name where n: "name \<in> set (logo_matches ''1'' dup_logos)"
    and s: "get_company_logo_file dup_logo_state ''1'' = SendFile name"
    and l: "\<forall>other \<in> set (logo_matches ''1'' dup_logos). mtime_of dup_logos other \<le> mtime_of dup_logos name"
    unfolding p by blast
  from n l mt have "name = ''logo-1.png''"
    by (auto simp: dup_matches)
  with s have served: "get_company_logo_file dup_logo_state ''1'' = SendFile ''logo-1.png''" by simp
  have m9: "logo_matches ''9'' dup_logos = []"
    by (simp add: logo_matches_def dup_logos_def readdirSync_def logo_prefix_def
      less_eq_char_def less_char_def)
  from w9 m9 have nf: "get_company_logo_file dup_logo_state ''9'' = Error 404 ''Logo not found''"
    unfolding p by blast
  have a: "authenticated (logo_file_req ''2'' 10)" "p_companyId (logo_file_req ''2'' 10) \<noteq> []"
    "q_metadata (logo_file_req ''2'' 10) \<noteq> Some ''true''"
    by (simp_all add: logo_file_req_def)
  have pc: "p_companyId (logo_file_req ''2'' 10) = ''2''" by (simp add: logo_file_req_def)
  have m2: "logo_matches ''2'' dup_logos = [''logo-2.gif'']"
    by (simp add: logo_matches_def dup_logos_def readdirSync_def logo_prefix_def suffix_def
      less_eq_char_def less_char_def)
  have nb: "\<forall>b t. map_of dup_logos (logo_metadata_name (p_companyId (logo_file_req ''2'' 10)))
      \<noteq> Some (Blob b, t)"
    by (simp add: dup_logos_def logo_metadata_name_def logo_file_req_def)
  from w a nb m2 have one: "get_company_logo dup_logo_state (logo_file_req ''2'' 10) = SendFile ''logo-2.gif''"
    unfolding pc by blast
  from ex ne served m9 nf a m2 one show ?thesis by (simp add: p)
qed

end
